theory Spec2Isabelle
  imports Complex_Main
begin

section \<open>Data model\<close>

text \<open>
  The repository holds several near-duplicate programs of one game. Three of them carry
  the engine the specification describes:
  \<^item> the console program with statistics (third program of \<open>main.go\<close>), suffix
    \<open>_console\<close>;
  \<^item> the first graphical program of \<open>animals/yellowstone_evolution.go\<close>, suffix
    \<open>_evolution\<close>;
  \<^item> the graphical program with the animation (\<open>unnamed/part_000\<close>, repeated with
    sound at the end of \<open>yellowstone_evolution.go\<close>), suffix \<open>_gui\<close>.

  \<open>float64\<close> is kept abstract: the engine multiplies two floats and compares two floats
  and does nothing else with them, so the type \<open>'f\<close> only needs a product and an order,
  and no law of arithmetic is used about either. Go's \<open>int\<close> is modelled by \<open>int\<close>: the
  counters start at zero and grow by one for each command.
\<close>

record 'f Animal =
  Name :: string
  Level :: int
  Mobility :: string
  Intelligence :: int
  Contacts :: "string list"
  Infected :: bool
  InfectionRate :: 'f
  Location :: string
  RedHerring :: bool

record 'f Virus =
  Modes :: "string list"
  Strength :: 'f

text \<open>\<open>StartTime\<close> is a reading of the clock; only its difference to a later reading is used.\<close>

record Stats =
  Attempts :: int
  SameLevelInfections :: int
  NextLevelInfections :: int
  StartTime :: int

text \<open>
  The phases of a run. The programs have no such variable: the phase is the place the
  control flow is at (which screen is shown, or which loop of \<open>main\<close> is running).
  \<open>Crashed\<close> stands for the panic of dereferencing a nil \<open>*Animal\<close>.
\<close>

datatype phase = SelectingStarter | Playing | Won | Exhausted | Crashed

text \<open>
  \<open>GameState\<close> of the graphical programs; the console program keeps the same values in
  the locals of \<open>main\<close> and the global \<open>maxLevel\<close>. The channel \<open>timerStop\<close>, the red-herring
  texts and the unused field \<open>score\<close> are presentation only. The roster
  \<open>map[string]*Animal\<close> is a list of animals in one iteration order of the map, keyed by
  \<open>Name\<close> as the loader builds it; the player pointer is the player's name.
  \<open>draws\<close> counts the calls of \<open>rand.Float64\<close> so far.
\<close>

record 'f GameState =
  animals :: "'f Animal list"
  playerName :: string
  maxLevel :: int
  currentDay :: int
  virus :: "'f Virus"
  stats :: Stats
  phase :: phase
  draws :: nat

datatype command = ChooseStarter string | ChooseTarget string | SkipTurn

section \<open>Roster\<close>

text \<open>\<open>animals[name]\<close>: the entry under a key, \<open>None\<close> for Go's nil.\<close>

definition lookup :: "'f Animal list \<Rightarrow> string \<Rightarrow> 'f Animal option" where
  "lookup roster n = find (\<lambda>a. Name a = n) roster"

text \<open>\<open>t.Infected = true\<close> through the pointer stored under the key \<open>n\<close>.\<close>

definition markInfected :: "string \<Rightarrow> 'f Animal list \<Rightarrow> 'f Animal list" where
  "markInfected n roster = map (\<lambda>a. if Name a = n then a\<lparr>Infected := True\<rparr> else a) roster"

text \<open>The running maximum of \<open>LoadAnimalsFromJSON\<close>, which starts at 0.\<close>

definition loadMaxLevel :: "'f Animal list \<Rightarrow> int" where
  "loadMaxLevel roster = foldl (\<lambda>m a. if Level a > m then Level a else m) 0 roster"

section \<open>Score\<close>

text \<open>
  \<open>elapsed.Seconds()\<close> is a \<open>float64\<close>, that is a real number, and \<open>int(...)\<close> of it drops
  the fraction (rounds towards zero). Go's integer division rounds towards zero as well.
\<close>

definition go_int :: "real \<Rightarrow> int" where
  "go_int x = (if 0 \<le> x then \<lfloor>x\<rfloor> else \<lceil>x\<rceil>)"

definition go_quot :: "int \<Rightarrow> int \<Rightarrow> int" where
  "go_quot a b = (if (a < 0) = (b < 0) then \<bar>a\<bar> div \<bar>b\<bar> else - (\<bar>a\<bar> div \<bar>b\<bar>))"

text \<open>
  \<open>calculateScore(stats Stats, elapsed time.Duration)\<close> of the console and the evolution
  program (the two bodies are the same); the second argument is \<open>elapsed.Seconds()\<close>.
\<close>

definition calculateScore :: "Stats \<Rightarrow> real \<Rightarrow> int" where
  "calculateScore st elapsed =
     (let seconds = go_int elapsed;
          score = 1000;
          score = score + NextLevelInfections st * 200;
          score = score - SameLevelInfections st * 100;
          score = score - Attempts st * 10;
          score = score - go_quot seconds 2
      in if score < 0 then 0 else score)"

text \<open>
  \<open>calculateScore(state *GameState)\<close> of the graphical program. It receives a pointer to
  the whole state, so the model returns the state next to the score. The second argument
  is \<open>time.Since(state.stats.StartTime).Seconds()\<close>.
\<close>

definition calculateScore_gui :: "'f GameState \<Rightarrow> real \<Rightarrow> int \<times> 'f GameState" where
  "calculateScore_gui state elapsed =
     (let secs = go_int elapsed;
          score = 1000 + (NextLevelInfections (stats state) * 200)
                  - (SameLevelInfections (stats state) * 100)
                  - (Attempts (stats state) * 10) - go_quot secs 2
      in (if score < 0 then 0 else score, state))"

section \<open>Console program with statistics\<close>

text \<open>
  \<open>getValidTargets\<close> of the console program: the names of the hosts that are not infected
  and whose level is the player's or one above. The \<open>RedHerring\<close> flag is not read here.
\<close>

definition getValidTargets_console :: "'f Animal \<Rightarrow> 'f Animal list \<Rightarrow> string list" where
  "getValidTargets_console player roster =
     map Name (filter (\<lambda>a. \<not> Infected a \<and> (Level a = Level player \<or> Level a = Level player + 1))
                roster)"

text \<open>
  \<open>askStarterAnimal\<close>, one round of its prompt: \<open>Some\<close> is the returned name, \<open>None\<close> is
  another round of the prompt. The user picks an entry of the list of level-one hosts.
\<close>

definition askStarterAnimal :: "'f Animal list \<Rightarrow> string \<Rightarrow> string option" where
  "askStarterAnimal roster choice =
     (let levelOne = map Name (filter (\<lambda>a. Level a = 1) roster)
      in if choice \<in> set levelOne
         then (case lookup roster choice of
                 None \<Rightarrow> None
               | Some a \<Rightarrow> if RedHerring a then None else Some choice)
         else None)"

text \<open>
  \<open>chooseTarget\<close>, one round of its prompt: \<open>Reprompt\<close> is another round, \<open>NoTarget\<close> is the
  returned nil (a skipped day), \<open>Target\<close> the returned host.
\<close>

datatype 'f choice = Reprompt | NoTarget | Target "'f Animal"

definition chooseTarget_console :: "'f Animal \<Rightarrow> 'f Animal list \<Rightarrow> command \<Rightarrow> 'f choice" where
  "chooseTarget_console player roster cmd =
     (let valid = getValidTargets_console player roster
      in if valid = [] then NoTarget
         else (case cmd of
                 SkipTurn \<Rightarrow> NoTarget
               | ChooseTarget targetName \<Rightarrow>
                   if targetName \<in> set valid
                   then (case lookup roster targetName of
                           None \<Rightarrow> Reprompt
                         | Some target \<Rightarrow> if RedHerring target then Reprompt else Target target)
                   else Reprompt
               | ChooseStarter _ \<Rightarrow> Reprompt))"

text \<open>
  \<open>attemptInfection\<close> of the console program. \<open>r\<close> is the value of \<open>rand.Float64()\<close>.
  The result is the roster and the statistics after the call, the name of the returned
  player and the returned flag \<open>won\<close>.
\<close>

definition attemptInfection_console ::
  "int \<Rightarrow> 'f::{times,ord} \<Rightarrow> 'f Animal \<Rightarrow> 'f Animal \<Rightarrow> 'f Virus \<Rightarrow> 'f Animal list \<Rightarrow> Stats
     \<Rightarrow> 'f Animal list \<times> Stats \<times> string \<times> bool" where
  "attemptInfection_console apex r player target v roster st =
     (let chance = InfectionRate target * Strength v;
          st1 = st\<lparr>Attempts := Attempts st + 1\<rparr>
      in if r < chance
         then (let roster1 = markInfected (Name target) roster;
                   st2 = (if Level target = Level player
                          then st1\<lparr>SameLevelInfections := SameLevelInfections st1 + 1\<rparr>
                          else if Level target = Level player + 1
                          then st1\<lparr>NextLevelInfections := NextLevelInfections st1 + 1\<rparr>
                          else st1)
               in if Level target > Level player
                  then (if Level target = apex
                        then (roster1, st2, Name target, True)
                        else (roster1, st2, Name target, False))
                  else (roster1, st2, Name player, False))
         else (roster, st1, Name player, False))"

text \<open>
  The head of one round of the day loop \<open>for day := 1; day <= 999; day++\<close>. With no
  valid target \<open>chooseTarget\<close> returns nil without reading any input, and the roster does
  not change on a skipped day, so the remaining days pass without input and the loop ends.
\<close>

definition enterDay_console :: "'f GameState \<Rightarrow> 'f GameState" where
  "enterDay_console s =
     (if currentDay s > 999 then s\<lparr>phase := Exhausted\<rparr>
      else (case lookup (animals s) (playerName s) of
              None \<Rightarrow> s\<lparr>phase := Crashed\<rparr>
            | Some player \<Rightarrow>
                if getValidTargets_console player (animals s) = []
                then s\<lparr>currentDay := 1000, phase := Exhausted\<rparr>
                else s\<lparr>phase := Playing\<rparr>))"

text \<open>
  One line of input to the console program. \<open>rng\<close> is the sequence of values that
  \<open>rand.Float64\<close> returns. After a win \<open>main\<close> returns, and after the last day it ends.
\<close>

definition step_console :: "(nat \<Rightarrow> 'f::{times,ord}) \<Rightarrow> 'f GameState \<Rightarrow> command \<Rightarrow> 'f GameState" where
  "step_console rng s cmd =
     (case phase s of
        SelectingStarter \<Rightarrow>
          (case cmd of
             ChooseStarter choice \<Rightarrow>
               (case askStarterAnimal (animals s) choice of
                  None \<Rightarrow> s
                | Some start \<Rightarrow>
                    enterDay_console
                      (s\<lparr>animals := markInfected start (animals s), playerName := start,
                         currentDay := 1\<rparr>))
           | _ \<Rightarrow> s)
      | Playing \<Rightarrow>
          (case lookup (animals s) (playerName s) of
             None \<Rightarrow> s\<lparr>phase := Crashed\<rparr>
           | Some player \<Rightarrow>
               (case chooseTarget_console player (animals s) cmd of
                  Reprompt \<Rightarrow> s
                | NoTarget \<Rightarrow> enterDay_console (s\<lparr>currentDay := currentDay s + 1\<rparr>)
                | Target target \<Rightarrow>
                    (case attemptInfection_console (maxLevel s) (rng (draws s)) player target
                            (virus s) (animals s) (stats s) of
                       (roster, st, newPlayer, won) \<Rightarrow>
                         (let s1 = s\<lparr>animals := roster, stats := st, playerName := newPlayer,
                                     draws := draws s + 1\<rparr>
                          in if won then s1\<lparr>phase := Won\<rparr>
                             else enterDay_console (s1\<lparr>currentDay := currentDay s + 1\<rparr>)))))
      | _ \<Rightarrow> s)"

definition run_console :: "(nat \<Rightarrow> 'f::{times,ord}) \<Rightarrow> 'f GameState \<Rightarrow> command list \<Rightarrow> 'f GameState" where
  "run_console rng s cmds = foldl (step_console rng) s cmds"

section \<open>Evolution program (first graphical program)\<close>

text \<open>\<open>getValidTargets\<close> of the evolution program: red herrings are left out.\<close>

definition getValidTargets_evolution :: "'f Animal \<Rightarrow> 'f Animal list \<Rightarrow> 'f Animal list" where
  "getValidTargets_evolution player roster =
     filter (\<lambda>a. \<not> (Infected a \<or> RedHerring a)
                 \<and> (Level a = Level player \<or> Level a = Level player + 1)) roster"

text \<open>\<open>attemptInfection\<close> of the evolution program: roster and statistics after the call, and the returned flag.\<close>

definition attemptInfection_evolution ::
  "'f::{times,ord} \<Rightarrow> 'f Animal \<Rightarrow> 'f Animal \<Rightarrow> 'f Virus \<Rightarrow> 'f Animal list \<Rightarrow> Stats
     \<Rightarrow> 'f Animal list \<times> Stats \<times> bool" where
  "attemptInfection_evolution r player target v roster st =
     (let chance = InfectionRate target * Strength v;
          st1 = st\<lparr>Attempts := Attempts st + 1\<rparr>
      in if r < chance
         then (let roster1 = markInfected (Name target) roster;
                   st2 = (if Level target = Level player
                          then st1\<lparr>SameLevelInfections := SameLevelInfections st1 + 1\<rparr>
                          else if Level target = Level player + 1
                          then st1\<lparr>NextLevelInfections := NextLevelInfections st1 + 1\<rparr>
                          else st1)
               in (roster1, st2, True))
         else (roster, st1, False))"

text \<open>
  The handler of the button "Infect" on the card of a valid target; \<open>player\<close> is the
  host the screen was built for.
\<close>

definition infectButton_evolution ::
  "(nat \<Rightarrow> 'f::{times,ord}) \<Rightarrow> 'f Animal \<Rightarrow> 'f Animal \<Rightarrow> 'f GameState \<Rightarrow> 'f GameState" where
  "infectButton_evolution rng player infectedAnimal s =
     (case attemptInfection_evolution (rng (draws s)) player infectedAnimal (virus s)
             (animals s) (stats s) of
        (roster, st, success) \<Rightarrow>
          (let s1 = s\<lparr>animals := roster, stats := st, draws := draws s + 1\<rparr>
           in if success \<and> Level infectedAnimal > Level player
              then (let s2 = s1\<lparr>playerName := Name infectedAnimal\<rparr>
                    in if Level infectedAnimal = maxLevel s then s2\<lparr>phase := Won\<rparr>
                       else s2\<lparr>currentDay := currentDay s + 1\<rparr>)
              else s1\<lparr>currentDay := currentDay s + 1\<rparr>))"

section \<open>Graphical program with the animation\<close>

text \<open>The test that decides whether \<open>createGameScreen\<close> builds a card for a host.\<close>

definition hasCard_gui :: "'f Animal \<Rightarrow> 'f Animal \<Rightarrow> bool" where
  "hasCard_gui player target =
     (\<not> (Infected target \<or> (Level target \<noteq> Level player \<and> Level target \<noteq> Level player + 1)))"

text \<open>
  The handler of the button "INFECT" on the card of \<open>t\<close>, followed by the callback that
  runs at the end of the animation; \<open>player\<close> is the host the screen was built for.
\<close>

definition infectButton_gui ::
  "(nat \<Rightarrow> 'f::{times,ord}) \<Rightarrow> 'f Animal \<Rightarrow> 'f Animal \<Rightarrow> 'f GameState \<Rightarrow> 'f GameState" where
  "infectButton_gui rng player t s =
     (let s1 = s\<lparr>stats := (stats s)\<lparr>Attempts := Attempts (stats s) + 1\<rparr>\<rparr>
      in if RedHerring t then s1
         else (let s2 = s1\<lparr>draws := draws s + 1\<rparr>
               in if rng (draws s) < InfectionRate t * Strength (virus s)
                  then (let st = stats s2;
                            s3 = s2\<lparr>animals := markInfected (Name t) (animals s),
                                    currentDay := currentDay s + 1,
                                    stats := (if Level t > Level player
                                              then st\<lparr>NextLevelInfections := NextLevelInfections st + 1\<rparr>
                                              else st\<lparr>SameLevelInfections := SameLevelInfections st + 1\<rparr>)\<rparr>;
                            s4 = s3\<lparr>playerName := Name t\<rparr>
                        in if Level t = maxLevel s then s4\<lparr>phase := Won\<rparr> else s4)
                  else s2))"

text \<open>
  The handler of the button "Choose" on the card of \<open>an\<close> in the starter screen; \<open>now\<close>
  is \<open>time.Now()\<close>.
\<close>

definition chooseButton_gui :: "int \<Rightarrow> 'f Animal \<Rightarrow> 'f GameState \<Rightarrow> 'f GameState" where
  "chooseButton_gui now an s =
     (if RedHerring an then s
      else s\<lparr>playerName := Name an, animals := markInfected (Name an) (animals s),
             stats := (stats s)\<lparr>StartTime := now\<rparr>, phase := Playing\<rparr>)"

text \<open>
  One click in the graphical program. The starter screen has a card for each host of
  level 1, the game screen for each host that passes \<open>hasCard_gui\<close>; the win screen has
  no button, and no screen has a button to skip a turn.
\<close>

definition step_gui :: "(nat \<Rightarrow> 'f::{times,ord}) \<Rightarrow> 'f GameState \<Rightarrow> int \<times> command \<Rightarrow> 'f GameState" where
  "step_gui rng s click =
     (case phase s of
        SelectingStarter \<Rightarrow>
          (case snd click of
             ChooseStarter n \<Rightarrow>
               (case lookup (animals s) n of
                  None \<Rightarrow> s
                | Some an \<Rightarrow> if Level an \<noteq> 1 then s else chooseButton_gui (fst click) an s)
           | _ \<Rightarrow> s)
      | Playing \<Rightarrow>
          (case lookup (animals s) (playerName s) of
             None \<Rightarrow> s\<lparr>phase := Crashed\<rparr>
           | Some player \<Rightarrow>
               (case snd click of
                  ChooseTarget n \<Rightarrow>
                    (case lookup (animals s) n of
                       None \<Rightarrow> s
                     | Some t \<Rightarrow> if hasCard_gui player t then infectButton_gui rng player t s else s)
                | _ \<Rightarrow> s))
      | _ \<Rightarrow> s)"

definition run_gui :: "(nat \<Rightarrow> 'f::{times,ord}) \<Rightarrow> 'f GameState \<Rightarrow> (int \<times> command) list \<Rightarrow> 'f GameState" where
  "run_gui rng s clicks = foldl (step_gui rng) s clicks"

section \<open>A small roster\<close>

text \<open>
  The scenario of the specification, over the reals: host A of level 1, host B of level 2
  (the apex), a second host C of level 1, and a red herring of level 1.
\<close>

definition host :: "string \<Rightarrow> int \<Rightarrow> real \<Rightarrow> bool \<Rightarrow> bool \<Rightarrow> real Animal" where
  "host n l rate herring sick =
     \<lparr>Name = n, Level = l, Mobility = ''walk'', Intelligence = 1, Contacts = [],
      Infected = sick, InfectionRate = rate, Location = ''Valley'', RedHerring = herring\<rparr>"

definition roster0 :: "real Animal list" where
  "roster0 = [host ''A'' 1 1 False False, host ''B'' 2 (1/2) False False,
              host ''C'' 1 1 False False, host ''Decoy'' 1 1 True False]"

definition stats0 :: Stats where
  "stats0 = \<lparr>Attempts = 0, SameLevelInfections = 0, NextLevelInfections = 0, StartTime = 0\<rparr>"

definition start0 :: "real GameState" where
  "start0 = \<lparr>animals = roster0, playerName = [], maxLevel = loadMaxLevel roster0, currentDay = 0,
             virus = \<lparr>Modes = [''Bite''], Strength = 1\<rparr>, stats = stats0,
             phase = SelectingStarter, draws = 0\<rparr>"

text \<open>The state after host A was chosen as the starter.\<close>

definition playing0 :: "real GameState" where
  "playing0 = start0\<lparr>animals := markInfected ''A'' roster0, playerName := ''A'', currentDay := 1,
                     phase := Playing\<rparr>"

text \<open>A random source that always returns 0.3, and one that always returns 0.7.\<close>

definition rngLow :: "nat \<Rightarrow> real" where
  "rngLow i = 3/10"

definition rngHigh :: "nat \<Rightarrow> real" where
  "rngHigh i = 7/10"

section \<open>Properties of the roster and of the score\<close>

lemma go_quot_two: "0 \<le> s \<Longrightarrow> go_quot s 2 = s div 2"
  by (simp add: go_quot_def)

lemma floor_half_floor: "\<lfloor>x\<rfloor> div 2 = \<lfloor>x / 2\<rfloor>"
  for x :: real
  using floor_divide_real_eq_div [of 2 x] by simp

lemma seconds_half: "0 \<le> x \<Longrightarrow> go_quot (go_int x) 2 = \<lfloor>x / 2\<rfloor>"
  by (simp add: go_int_def go_quot_two floor_half_floor)

lemma lookup_Some: "lookup roster n = Some a \<Longrightarrow> Name a = n \<and> a \<in> set roster"
  unfolding lookup_def by (induction roster) (auto split: if_splits)

lemma lookup_markInfected_same:
  "lookup (markInfected n roster) n = map_option (\<lambda>a. a\<lparr>Infected := True\<rparr>) (lookup roster n)"
  unfolding lookup_def markInfected_def by (induction roster) auto

lemma lookup_markInfected_other:
  "m \<noteq> n \<Longrightarrow> lookup (markInfected m roster) n = lookup roster n"
  unfolding lookup_def markInfected_def by (induction roster) auto

lemma markInfected_flags:
  "a' \<in> set (markInfected n roster) \<Longrightarrow>
     \<exists>a \<in> set roster. Name a' = Name a \<and> Level a' = Level a \<and> RedHerring a' = RedHerring a
        \<and> (Infected a' \<longleftrightarrow> Infected a \<or> Name a = n)"
  unfolding markInfected_def by auto

section \<open>The score formula\<close>

text \<open>
  Claim C5. For every state of the counters and every elapsed time (a non-negative number
  of seconds) the score is 1000 + 200 * nextLevelInfections - 100 * sameLevelInfections
  - 10 * attempts - floor (seconds / 2), and 0 where that is negative. The score is never
  negative. With one attempt, one next-level infection and no time elapsed it is 1190.
\<close>

theorem score_formula:
  fixes st :: Stats and s :: "'f GameState" and elapsed :: real
  shows "(0 \<le> elapsed \<longrightarrow>
            calculateScore st elapsed =
              max 0 (1000 + 200 * NextLevelInfections st - 100 * SameLevelInfections st
                     - 10 * Attempts st - \<lfloor>elapsed / 2\<rfloor>)
          \<and> fst (calculateScore_gui s elapsed) =
              max 0 (1000 + 200 * NextLevelInfections (stats s)
                     - 100 * SameLevelInfections (stats s)
                     - 10 * Attempts (stats s) - \<lfloor>elapsed / 2\<rfloor>))
         \<and> 0 \<le> calculateScore st elapsed \<and> 0 \<le> fst (calculateScore_gui s elapsed)"
  by (simp add: calculateScore_def calculateScore_gui_def Let_def seconds_half max_def)

theorem score_formula_witness:
  "(0::real) \<le> 0
   \<and> calculateScore (stats0\<lparr>Attempts := 1, NextLevelInfections := 1\<rparr>) 0 = 1190
   \<and> fst (calculateScore_gui (start0\<lparr>stats := stats0\<lparr>Attempts := 1, NextLevelInfections := 1\<rparr>\<rparr>) 0) = 1190
   \<and> calculateScore (stats0\<lparr>Attempts := 200\<rparr>) 7 = 0"
  using score_formula [of 0 "stats0\<lparr>Attempts := 1, NextLevelInfections := 1\<rparr>"
                          "start0\<lparr>stats := stats0\<lparr>Attempts := 1, NextLevelInfections := 1\<rparr>\<rparr>"]
        score_formula [of 7 "stats0\<lparr>Attempts := 200\<rparr>" start0]
  by (simp add: stats0_def)

text \<open>
  Claim C6. The score is a function of the three counters and the elapsed time alone:
  two tracker states (or two game states) that agree on the counters get the same score
  for the same elapsed time, whatever else differs, and computing the score leaves the
  game state as it was.
\<close>

theorem score_pure:
  fixes st st' :: Stats and s s' :: "'f GameState" and elapsed :: real
  shows "(Attempts st = Attempts st' \<and> SameLevelInfections st = SameLevelInfections st'
            \<and> NextLevelInfections st = NextLevelInfections st'
          \<longrightarrow> calculateScore st elapsed = calculateScore st' elapsed)
         \<and> (Attempts (stats s) = Attempts (stats s')
              \<and> SameLevelInfections (stats s) = SameLevelInfections (stats s')
              \<and> NextLevelInfections (stats s) = NextLevelInfections (stats s')
            \<longrightarrow> fst (calculateScore_gui s elapsed) = fst (calculateScore_gui s' elapsed))
         \<and> snd (calculateScore_gui s elapsed) = s"
  by (simp add: calculateScore_def calculateScore_gui_def Let_def)

theorem score_pure_witness:
  "calculateScore (stats0\<lparr>Attempts := 3\<rparr>) 5 = calculateScore (stats0\<lparr>Attempts := 3, StartTime := 99\<rparr>) 5
   \<and> fst (calculateScore_gui (start0\<lparr>stats := stats0\<lparr>Attempts := 3\<rparr>\<rparr>) 5)
       = fst (calculateScore_gui (playing0\<lparr>stats := stats0\<lparr>Attempts := 3, StartTime := 99\<rparr>\<rparr>) 5)
   \<and> snd (calculateScore_gui playing0 5) = playing0"
  using score_pure [of "stats0\<lparr>Attempts := 3\<rparr>" "stats0\<lparr>Attempts := 3, StartTime := 99\<rparr>" 5
                       "start0\<lparr>stats := stats0\<lparr>Attempts := 3\<rparr>\<rparr>"
                       "playing0\<lparr>stats := stats0\<lparr>Attempts := 3, StartTime := 99\<rparr>\<rparr>"]
        score_pure [of stats0 stats0 5 playing0 playing0]
  by (simp add: stats0_def)

section \<open>The infection resolver\<close>

text \<open>
  Claim C1. On an attempt at a target that is in the roster, not infected and not a red
  herring, each of the three programs computes the chance as the product of the target's
  infection rate and the virus strength, with no clamping, compares one draw \<open>r\<close> with
  it, and the target is infected afterwards if and only if \<open>r < chance\<close>; on a failure
  the roster is unchanged. The graphical program makes exactly one draw.
\<close>

theorem infection_iff_draw_below_chance:
  fixes r :: "'f::{times,ord}"
  assumes "lookup roster (Name target) = Some target"
    and "\<not> Infected target" and "\<not> RedHerring target"
    and "animals s = roster" and "virus s = v"
  shows "(case attemptInfection_console apex r player target v roster st of
            (roster', st', newPlayer, won) \<Rightarrow>
              roster' = (if r < InfectionRate target * Strength v
                         then markInfected (Name target) roster else roster)
              \<and> map_option Infected (lookup roster' (Name target))
                  = Some (r < InfectionRate target * Strength v))
         \<and> (case attemptInfection_evolution r player target v roster st of
              (roster', st', success) \<Rightarrow>
                (success \<longleftrightarrow> r < InfectionRate target * Strength v)
                \<and> roster' = (if success then markInfected (Name target) roster else roster)
                \<and> map_option Infected (lookup roster' (Name target)) = Some success)
         \<and> (let s' = infectButton_gui rng player target s;
                 success = (rng (draws s) < InfectionRate target * Strength v)
             in draws s' = draws s + 1
                \<and> animals s' = (if success then markInfected (Name target) roster else roster)
                \<and> map_option Infected (lookup (animals s') (Name target)) = Some success)"
  using assms
  by (simp add: attemptInfection_console_def attemptInfection_evolution_def infectButton_gui_def
        Let_def lookup_markInfected_same)

theorem infection_iff_draw_below_chance_witness:
  "lookup (animals playing0) (Name (host ''B'' 2 (1/2) False False)) = Some (host ''B'' 2 (1/2) False False)
   \<and> map_option Infected (lookup (animals (infectButton_gui rngLow (host ''A'' 1 1 False True)
         (host ''B'' 2 (1/2) False False) playing0)) ''B'') = Some True
   \<and> map_option Infected (lookup (animals (infectButton_gui rngHigh (host ''A'' 1 1 False True)
         (host ''B'' 2 (1/2) False False) playing0)) ''B'') = Some False
   \<and> fst (attemptInfection_console 2 (3/10) (host ''A'' 1 1 False True) (host ''B'' 2 (1/2) False False)
         (virus playing0) (animals playing0) stats0) = markInfected ''B'' (animals playing0)
   \<and> snd (snd (attemptInfection_evolution (7/10) (host ''A'' 1 1 False True) (host ''B'' 2 (1/2) False False)
         (virus playing0) (animals playing0) stats0)) = False"
  using infection_iff_draw_below_chance [where roster = "animals playing0"
           and target = "host ''B'' 2 (1/2) False False" and s = playing0 and v = "virus playing0"
           and apex = 2 and r = "3/10" and player = "host ''A'' 1 1 False True" and st = stats0
           and rng = rngLow]
        infection_iff_draw_below_chance [where roster = "animals playing0"
           and target = "host ''B'' 2 (1/2) False False" and s = playing0 and v = "virus playing0"
           and apex = 2 and r = "7/10" and player = "host ''A'' 1 1 False True" and st = stats0
           and rng = rngHigh]
  by (simp add: playing0_def start0_def roster0_def host_def lookup_def markInfected_def rngLow_def rngHigh_def Let_def split: prod.splits)

text \<open>
  Claim C2, as the specification states it, fails in the graphical program with the
  animation: after a successful same-level infection the player host is the target.
\<close>

theorem same_level_keeps_host_counterexample:
  "phase playing0 = Playing \<and> playerName playing0 = ''A''
   \<and> lookup (animals playing0) ''A'' = Some (host ''A'' 1 1 False True)
   \<and> lookup (animals playing0) ''C'' = Some (host ''C'' 1 1 False False)
   \<and> Level (host ''C'' 1 1 False False) = Level (host ''A'' 1 1 False True)
   \<and> rngLow (draws playing0) < InfectionRate (host ''C'' 1 1 False False) * Strength (virus playing0)
   \<and> SameLevelInfections (stats (step_gui rngLow playing0 (0, ChooseTarget ''C''))) = 1
   \<and> playerName (step_gui rngLow playing0 (0, ChooseTarget ''C'')) = ''C''
   \<and> playerName (step_gui rngLow playing0 (0, ChooseTarget ''C'')) \<noteq> playerName playing0"
  by (simp add: playing0_def start0_def roster0_def stats0_def host_def lookup_def markInfected_def
        rngLow_def step_gui_def hasCard_gui_def infectButton_gui_def Let_def)

text \<open>
  Claim C2, amended. For every successful attempt at an eligible target (not a red
  herring, of the player's level or one above): if the target's level is above the
  player's, the player host becomes the target and nextLevelInfections grows by one; if
  the levels are equal, sameLevelInfections grows by one, and the player host is unchanged
  in the console and the evolution program, while in the graphical program with the
  animation the player host becomes the target on every success.
\<close>

theorem success_classified_by_level:
  fixes rng :: "nat \<Rightarrow> 'f::{times,ord}"
  assumes "Level target = Level player \<or> Level target = Level player + 1"
    and "\<not> RedHerring target"
    and "rng (draws s) < InfectionRate target * Strength (virus s)"
    and "playerName s = Name player"
  shows "(case attemptInfection_console apex (rng (draws s)) player target (virus s) (animals s) (stats s) of
            (roster', st', newPlayer, won) \<Rightarrow>
              (Level target > Level player \<longrightarrow>
                 newPlayer = Name target
                 \<and> NextLevelInfections st' = NextLevelInfections (stats s) + 1
                 \<and> SameLevelInfections st' = SameLevelInfections (stats s))
              \<and> (Level target = Level player \<longrightarrow>
                 newPlayer = playerName s
                 \<and> SameLevelInfections st' = SameLevelInfections (stats s) + 1
                 \<and> NextLevelInfections st' = NextLevelInfections (stats s)))
         \<and> (let s' = infectButton_evolution rng player target s
            in (Level target > Level player \<longrightarrow>
                  playerName s' = Name target
                  \<and> NextLevelInfections (stats s') = NextLevelInfections (stats s) + 1
                  \<and> SameLevelInfections (stats s') = SameLevelInfections (stats s))
               \<and> (Level target = Level player \<longrightarrow>
                  playerName s' = playerName s
                  \<and> SameLevelInfections (stats s') = SameLevelInfections (stats s) + 1
                  \<and> NextLevelInfections (stats s') = NextLevelInfections (stats s)))
         \<and> (let s' = infectButton_gui rng player target s
            in playerName s' = Name target
               \<and> (Level target > Level player \<longrightarrow>
                  NextLevelInfections (stats s') = NextLevelInfections (stats s) + 1
                  \<and> SameLevelInfections (stats s') = SameLevelInfections (stats s))
               \<and> (Level target = Level player \<longrightarrow>
                  SameLevelInfections (stats s') = SameLevelInfections (stats s) + 1
                  \<and> NextLevelInfections (stats s') = NextLevelInfections (stats s)))"
  using assms
  by (auto simp add: attemptInfection_console_def attemptInfection_evolution_def
        infectButton_evolution_def infectButton_gui_def Let_def)

theorem success_classified_by_level_witness:
  "(let s' = infectButton_gui rngLow (host ''A'' 1 1 False True) (host ''B'' 2 (1/2) False False) playing0
    in playerName s' = ''B'' \<and> NextLevelInfections (stats s') = 1 \<and> SameLevelInfections (stats s') = 0)
   \<and> (let s' = infectButton_evolution rngLow (host ''A'' 1 1 False True) (host ''C'' 1 1 False False) playing0
    in playerName s' = ''A'' \<and> NextLevelInfections (stats s') = 0 \<and> SameLevelInfections (stats s') = 1)
   \<and> (let s' = infectButton_gui rngLow (host ''A'' 1 1 False True) (host ''C'' 1 1 False False) playing0
    in playerName s' = ''C'' \<and> NextLevelInfections (stats s') = 0 \<and> SameLevelInfections (stats s') = 1)"
  using success_classified_by_level [where target = "host ''B'' 2 (1/2) False False"
           and player = "host ''A'' 1 1 False True" and s = playing0 and rng = rngLow and apex = 2]
        success_classified_by_level [where target = "host ''C'' 1 1 False False"
           and player = "host ''A'' 1 1 False True" and s = playing0 and rng = rngLow and apex = 2]
  by (simp add: playing0_def start0_def stats0_def host_def rngLow_def Let_def)

text \<open>
  Claim C10. In \<open>attemptInfection\<close> of the console program, a success at a target two or
  more levels above the player infects the target, moves the player to it and reports a
  win when the target's level is the apex, while of the counters only \<open>Attempts\<close> grows.
\<close>

theorem far_level_success_uncounted:
  fixes r :: "'f::{times,ord}"
  assumes "r < InfectionRate target * Strength v"
    and "Level player + 2 \<le> Level target"
  shows "attemptInfection_console apex r player target v roster st =
           (markInfected (Name target) roster, st\<lparr>Attempts := Attempts st + 1\<rparr>, Name target,
            Level target = apex)"
  using assms by (simp add: attemptInfection_console_def Let_def)

theorem far_level_success_uncounted_witness:
  "(3/10 :: real) < InfectionRate (host ''B'' 3 1 False False) * Strength (virus playing0)
   \<and> Level (host ''A'' 1 1 False True) + 2 \<le> Level (host ''B'' 3 1 False False)
   \<and> attemptInfection_console 3 (3/10) (host ''A'' 1 1 False True) (host ''B'' 3 1 False False)
        (virus playing0) [host ''A'' 1 1 False True, host ''B'' 3 1 False False] stats0
      = ([host ''A'' 1 1 False True, host ''B'' 3 1 False True],
         \<lparr>Attempts = 1, SameLevelInfections = 0, NextLevelInfections = 0, StartTime = 0\<rparr>, ''B'', True)"
  using far_level_success_uncounted [where r = "3/10" and target = "host ''B'' 3 1 False False"
          and v = "virus playing0" and player = "host ''A'' 1 1 False True" and apex = 3
          and roster = "[host ''A'' 1 1 False True, host ''B'' 3 1 False False]" and st = stats0]
  by (simp add: playing0_def start0_def stats0_def host_def markInfected_def)

section \<open>Eligibility\<close>

text \<open>
  Claim C3, as the specification states it, fails in the console program and in the
  graphical program with the animation: both filter by level only, and a red herring that
  is not infected and of the player's level is listed by \<open>getValidTargets\<close> and gets a card.
\<close>

theorem red_herring_listed_counterexample:
  "lookup (animals playing0) ''Decoy'' = Some (host ''Decoy'' 1 1 True False)
   \<and> RedHerring (host ''Decoy'' 1 1 True False)
   \<and> ''Decoy'' \<in> set (getValidTargets_console (host ''A'' 1 1 False True) (animals playing0))
   \<and> hasCard_gui (host ''A'' 1 1 False True) (host ''Decoy'' 1 1 True False)"
  by (simp add: playing0_def start0_def roster0_def host_def lookup_def markInfected_def
        getValidTargets_console_def hasCard_gui_def)

text \<open>
  Claim C3, amended. In the evolution program a host is an eligible target if and only if
  it is in the roster, not infected, not a red herring, and of the player's level or one
  above. In the console program and in the graphical program with the animation the hosts
  offered are those that are not infected and of the player's level or one above, red
  herrings included. In all three the contact lists have no effect.
\<close>

theorem eligible_targets:
  fixes player a :: "'f Animal"
  shows "(a \<in> set (getValidTargets_evolution player roster) \<longleftrightarrow>
            a \<in> set roster \<and> \<not> Infected a \<and> \<not> RedHerring a
            \<and> (Level a = Level player \<or> Level a = Level player + 1))
         \<and> (n \<in> set (getValidTargets_console player roster) \<longleftrightarrow>
            (\<exists>b \<in> set roster. Name b = n \<and> \<not> Infected b
               \<and> (Level b = Level player \<or> Level b = Level player + 1)))
         \<and> (hasCard_gui player a \<longleftrightarrow>
            \<not> Infected a \<and> (Level a = Level player \<or> Level a = Level player + 1))
         \<and> getValidTargets_evolution (player\<lparr>Contacts := cs\<rparr>) (map (\<lambda>b. b\<lparr>Contacts := f b\<rparr>) roster)
             = map (\<lambda>b. b\<lparr>Contacts := f b\<rparr>) (getValidTargets_evolution player roster)
         \<and> getValidTargets_console (player\<lparr>Contacts := cs\<rparr>) (map (\<lambda>b. b\<lparr>Contacts := f b\<rparr>) roster)
             = getValidTargets_console player roster
         \<and> hasCard_gui (player\<lparr>Contacts := cs\<rparr>) (a\<lparr>Contacts := cs'\<rparr>) = hasCard_gui player a"
proof -
  have "filter (\<lambda>a. \<not> (Infected a \<or> RedHerring a) \<and> (Level a = Level player \<or> Level a = Level player + 1))
          (map (\<lambda>b. b\<lparr>Contacts := f b\<rparr>) roster)
        = map (\<lambda>b. b\<lparr>Contacts := f b\<rparr>)
            (filter (\<lambda>a. \<not> (Infected a \<or> RedHerring a) \<and> (Level a = Level player \<or> Level a = Level player + 1)) roster)"
    by (induction roster) auto
  moreover have "map Name (filter (\<lambda>a. \<not> Infected a \<and> (Level a = Level player \<or> Level a = Level player + 1))
          (map (\<lambda>b. b\<lparr>Contacts := f b\<rparr>) roster))
        = map Name (filter (\<lambda>a. \<not> Infected a \<and> (Level a = Level player \<or> Level a = Level player + 1)) roster)"
    by (induction roster) auto
  ultimately show ?thesis
    by (auto simp add: getValidTargets_evolution_def getValidTargets_console_def hasCard_gui_def)
qed

theorem eligible_targets_witness:
  "getValidTargets_evolution (host ''A'' 1 1 False True) (animals playing0)
     = [host ''B'' 2 (1/2) False False, host ''C'' 1 1 False False]
   \<and> getValidTargets_console (host ''A'' 1 1 False True) (animals playing0) = [''B'', ''C'', ''Decoy'']
   \<and> host ''Decoy'' 1 1 True False \<notin> set (getValidTargets_evolution (host ''A'' 1 1 False True) (animals playing0))
   \<and> (\<exists>b \<in> set (animals playing0). Name b = ''Decoy'' \<and> \<not> Infected b \<and> (Level b = 1 \<or> Level b = 2))"
  using eligible_targets [where a = "host ''Decoy'' 1 1 True False" and player = "host ''A'' 1 1 False True"
          and roster = "animals playing0" and n = "''Decoy''"]
  by (simp add: playing0_def start0_def roster0_def host_def markInfected_def
        getValidTargets_evolution_def getValidTargets_console_def)

section \<open>Red herrings\<close>

text \<open>
  Claim C9, as the specification states it, fails in the console program, which filters
  by level: a red herring is among the valid targets, and choosing it leaves \<open>Attempts\<close>
  as it was.
\<close>

theorem red_herring_attempt_counterexample:
  "phase playing0 = Playing
   \<and> lookup (animals playing0) (playerName playing0) = Some (host ''A'' 1 1 False True)
   \<and> lookup (animals playing0) ''Decoy'' = Some (host ''Decoy'' 1 1 True False)
   \<and> RedHerring (host ''Decoy'' 1 1 True False)
   \<and> ''Decoy'' \<in> set (getValidTargets_console (host ''A'' 1 1 False True) (animals playing0))
   \<and> Attempts (stats (step_console rngLow playing0 (ChooseTarget ''Decoy''))) = Attempts (stats playing0)
   \<and> Attempts (stats (step_console rngLow playing0 (ChooseTarget ''Decoy''))) \<noteq> Attempts (stats playing0) + 1"
  by (simp add: playing0_def start0_def roster0_def stats0_def host_def lookup_def markInfected_def
        getValidTargets_console_def step_console_def chooseTarget_console_def)

text \<open>
  Claim C9, amended. For a red herring in the roster: the evolution program never lists it
  as a target; in the graphical program with the animation its button adds one to
  \<open>Attempts\<close> and changes nothing else (no draw, no infection, same player); in the console
  program choosing it is refused and the state, \<open>Attempts\<close> included, is unchanged.
\<close>

theorem red_herring_attempt:
  fixes rng :: "nat \<Rightarrow> 'f::{times,ord}"
  assumes "RedHerring t"
    and "lookup (animals s) n = Some t"
    and "lookup (animals s) (playerName s) = Some player"
    and "phase s = Playing"
  shows "t \<notin> set (getValidTargets_evolution player (animals s))
         \<and> infectButton_gui rng player t s = s\<lparr>stats := (stats s)\<lparr>Attempts := Attempts (stats s) + 1\<rparr>\<rparr>
         \<and> (hasCard_gui player t \<longrightarrow>
              step_gui rng s (now, ChooseTarget n)
                = s\<lparr>stats := (stats s)\<lparr>Attempts := Attempts (stats s) + 1\<rparr>\<rparr>)
         \<and> (getValidTargets_console player (animals s) \<noteq> [] \<longrightarrow>
              step_console rng s (ChooseTarget n) = s)"
  using assms
  by (simp add: getValidTargets_evolution_def infectButton_gui_def step_gui_def step_console_def
        chooseTarget_console_def Let_def)

theorem red_herring_attempt_witness:
  "RedHerring (host ''Decoy'' 1 1 True False)
   \<and> hasCard_gui (host ''A'' 1 1 False True) (host ''Decoy'' 1 1 True False)
   \<and> getValidTargets_console (host ''A'' 1 1 False True) (animals playing0) \<noteq> []
   \<and> step_gui rngLow playing0 (0, ChooseTarget ''Decoy'')
       = playing0\<lparr>stats := stats0\<lparr>Attempts := 1\<rparr>\<rparr>
   \<and> step_console rngLow playing0 (ChooseTarget ''Decoy'') = playing0"
  using red_herring_attempt [where t = "host ''Decoy'' 1 1 True False" and s = playing0 and n = "''Decoy''"
          and player = "host ''A'' 1 1 False True" and rng = rngLow and now = 0]
  by (simp add: playing0_def start0_def roster0_def stats0_def host_def lookup_def markInfected_def
        getValidTargets_console_def hasCard_gui_def)

section \<open>Runs\<close>

lemma enterDay_console_fields [simp]:
  "stats (enterDay_console s) = stats s"
  "animals (enterDay_console s) = animals s"
  "playerName (enterDay_console s) = playerName s"
  by (simp_all add: enterDay_console_def split: option.splits)

lemma enterDay_console_phase:
  "phase (enterDay_console s) \<noteq> SelectingStarter"
  by (simp add: enterDay_console_def split: option.splits)

lemma attemptInfection_console_counters:
  "attemptInfection_console apex r player target v roster st = (roster', st', newPlayer, won) \<Longrightarrow>
     Attempts st' = Attempts st + 1
     \<and> SameLevelInfections st \<le> SameLevelInfections st'
     \<and> NextLevelInfections st \<le> NextLevelInfections st'
     \<and> SameLevelInfections st' + NextLevelInfections st'
          \<le> SameLevelInfections st + NextLevelInfections st + 1"
  by (auto simp add: attemptInfection_console_def Let_def split: if_splits)

lemma attemptInfection_evolution_counters:
  "attemptInfection_evolution r player target v roster st = (roster', st', success) \<Longrightarrow>
     Attempts st' = Attempts st + 1
     \<and> SameLevelInfections st \<le> SameLevelInfections st'
     \<and> NextLevelInfections st \<le> NextLevelInfections st'
     \<and> SameLevelInfections st' + NextLevelInfections st'
          \<le> SameLevelInfections st + NextLevelInfections st + 1"
  by (auto simp add: attemptInfection_evolution_def Let_def split: if_splits)

lemma infectButton_gui_counters:
  "Attempts (stats (infectButton_gui rng player t s)) = Attempts (stats s) + 1
   \<and> SameLevelInfections (stats s) \<le> SameLevelInfections (stats (infectButton_gui rng player t s))
   \<and> NextLevelInfections (stats s) \<le> NextLevelInfections (stats (infectButton_gui rng player t s))
   \<and> SameLevelInfections (stats (infectButton_gui rng player t s))
        + NextLevelInfections (stats (infectButton_gui rng player t s))
        \<le> SameLevelInfections (stats s) + NextLevelInfections (stats s) + 1"
  by (simp add: infectButton_gui_def Let_def)

lemma step_console_counters:
  "Attempts (stats s) \<le> Attempts (stats (step_console rng s cmd))
   \<and> SameLevelInfections (stats s) \<le> SameLevelInfections (stats (step_console rng s cmd))
   \<and> NextLevelInfections (stats s) \<le> NextLevelInfections (stats (step_console rng s cmd))
   \<and> (SameLevelInfections (stats s) + NextLevelInfections (stats s) \<le> Attempts (stats s) \<longrightarrow>
        SameLevelInfections (stats (step_console rng s cmd))
          + NextLevelInfections (stats (step_console rng s cmd))
          \<le> Attempts (stats (step_console rng s cmd)))"
  unfolding step_console_def
  by (auto simp add: Let_def dest!: attemptInfection_console_counters
        split: phase.splits command.splits option.splits choice.splits prod.splits)

lemma step_gui_counters:
  "Attempts (stats s) \<le> Attempts (stats (step_gui rng s click))
   \<and> SameLevelInfections (stats s) \<le> SameLevelInfections (stats (step_gui rng s click))
   \<and> NextLevelInfections (stats s) \<le> NextLevelInfections (stats (step_gui rng s click))
   \<and> (SameLevelInfections (stats s) + NextLevelInfections (stats s) \<le> Attempts (stats s) \<longrightarrow>
        SameLevelInfections (stats (step_gui rng s click))
          + NextLevelInfections (stats (step_gui rng s click))
          \<le> Attempts (stats (step_gui rng s click)))"
proof -
  have "step_gui rng s click = s
        \<or> stats (step_gui rng s click) = stats s
        \<or> stats (step_gui rng s click) = (stats s)\<lparr>StartTime := fst click\<rparr>
        \<or> (\<exists>player t. step_gui rng s click = infectButton_gui rng player t s)"
    unfolding step_gui_def
    by (auto simp add: chooseButton_gui_def split: phase.splits command.splits option.splits)
  then consider "step_gui rng s click = s" | "stats (step_gui rng s click) = stats s"
    | "stats (step_gui rng s click) = (stats s)\<lparr>StartTime := fst click\<rparr>"
    | player t where "step_gui rng s click = infectButton_gui rng player t s"
    by blast
  then show ?thesis
  proof cases
    case 4
    then show ?thesis
      using infectButton_gui_counters [of rng player t s] by simp
  qed simp_all
qed

lemma run_console_counters:
  "Attempts (stats s) \<le> Attempts (stats (run_console rng s cmds))
   \<and> SameLevelInfections (stats s) \<le> SameLevelInfections (stats (run_console rng s cmds))
   \<and> NextLevelInfections (stats s) \<le> NextLevelInfections (stats (run_console rng s cmds))
   \<and> (SameLevelInfections (stats s) + NextLevelInfections (stats s) \<le> Attempts (stats s) \<longrightarrow>
        SameLevelInfections (stats (run_console rng s cmds))
          + NextLevelInfections (stats (run_console rng s cmds))
          \<le> Attempts (stats (run_console rng s cmds)))"
proof (induction cmds arbitrary: s)
  case Nil
  then show ?case by (simp add: run_console_def)
next
  case (Cons c cs)
  have unfold: "run_console rng s (c # cs) = run_console rng (step_console rng s c) cs"
    by (simp add: run_console_def)
  show ?case
    unfolding unfold
    using step_console_counters [of s rng c] Cons.IH [of "step_console rng s c"]
    by linarith
qed

lemma run_gui_counters:
  "Attempts (stats s) \<le> Attempts (stats (run_gui rng s clicks))
   \<and> SameLevelInfections (stats s) \<le> SameLevelInfections (stats (run_gui rng s clicks))
   \<and> NextLevelInfections (stats s) \<le> NextLevelInfections (stats (run_gui rng s clicks))
   \<and> (SameLevelInfections (stats s) + NextLevelInfections (stats s) \<le> Attempts (stats s) \<longrightarrow>
        SameLevelInfections (stats (run_gui rng s clicks))
          + NextLevelInfections (stats (run_gui rng s clicks))
          \<le> Attempts (stats (run_gui rng s clicks)))"
proof (induction clicks arbitrary: s)
  case Nil
  then show ?case by (simp add: run_gui_def)
next
  case (Cons c cs)
  have unfold: "run_gui rng s (c # cs) = run_gui rng (step_gui rng s c) cs"
    by (simp add: run_gui_def)
  show ?case
    unfolding unfold
    using step_gui_counters [of s rng c] Cons.IH [of "step_gui rng s c"]
    by linarith
qed

text \<open>
  Claim C7. In every run of the console program and of the graphical program with the
  animation, and in every call of \<open>attemptInfection\<close> of the evolution program, the
  counters \<open>Attempts\<close>, \<open>SameLevelInfections\<close> and \<open>NextLevelInfections\<close> at a later point
  are at least what they were at an earlier point, and
  \<open>SameLevelInfections + NextLevelInfections \<le> Attempts\<close> holds at every point when it
  holds at the start (where all three are zero).
\<close>

theorem counters_never_decrease:
  fixes rng :: "nat \<Rightarrow> 'f::{times,ord}"
  assumes "SameLevelInfections (stats s) + NextLevelInfections (stats s) \<le> Attempts (stats s)"
  shows "(let a = stats (run_console rng s cmds); b = stats (run_console rng s (cmds @ later))
          in Attempts a \<le> Attempts b \<and> SameLevelInfections a \<le> SameLevelInfections b
             \<and> NextLevelInfections a \<le> NextLevelInfections b
             \<and> SameLevelInfections b + NextLevelInfections b \<le> Attempts b)
         \<and> (let a = stats (run_gui rng s clicks); b = stats (run_gui rng s (clicks @ later'))
            in Attempts a \<le> Attempts b \<and> SameLevelInfections a \<le> SameLevelInfections b
               \<and> NextLevelInfections a \<le> NextLevelInfections b
               \<and> SameLevelInfections b + NextLevelInfections b \<le> Attempts b)
         \<and> (case attemptInfection_evolution r player target v roster (stats s) of
              (roster', b, success) \<Rightarrow>
                Attempts (stats s) \<le> Attempts b \<and> SameLevelInfections (stats s) \<le> SameLevelInfections b
                \<and> NextLevelInfections (stats s) \<le> NextLevelInfections b
                \<and> SameLevelInfections b + NextLevelInfections b \<le> Attempts b)"
proof -
  have c: "run_console rng s (cmds @ later) = run_console rng (run_console rng s cmds) later"
    by (simp add: run_console_def)
  have g: "run_gui rng s (clicks @ later') = run_gui rng (run_gui rng s clicks) later'"
    by (simp add: run_gui_def)
  have console: "let a = stats (run_console rng s cmds); b = stats (run_console rng s (cmds @ later))
          in Attempts a \<le> Attempts b \<and> SameLevelInfections a \<le> SameLevelInfections b
             \<and> NextLevelInfections a \<le> NextLevelInfections b
             \<and> SameLevelInfections b + NextLevelInfections b \<le> Attempts b"
    unfolding c Let_def
    using assms run_console_counters [of s rng cmds]
      run_console_counters [of "run_console rng s cmds" rng later]
    by blast
  have gui: "let a = stats (run_gui rng s clicks); b = stats (run_gui rng s (clicks @ later'))
            in Attempts a \<le> Attempts b \<and> SameLevelInfections a \<le> SameLevelInfections b
               \<and> NextLevelInfections a \<le> NextLevelInfections b
               \<and> SameLevelInfections b + NextLevelInfections b \<le> Attempts b"
    unfolding g Let_def
    using assms run_gui_counters [of s rng clicks]
      run_gui_counters [of "run_gui rng s clicks" rng later']
    by blast
  have evolution: "case attemptInfection_evolution r player target v roster (stats s) of
              (roster', b, success) \<Rightarrow>
                Attempts (stats s) \<le> Attempts b \<and> SameLevelInfections (stats s) \<le> SameLevelInfections b
                \<and> NextLevelInfections (stats s) \<le> NextLevelInfections b
                \<and> SameLevelInfections b + NextLevelInfections b \<le> Attempts b"
    using assms
    by (auto dest!: attemptInfection_evolution_counters split: prod.splits)
  from console gui evolution show ?thesis by blast
qed

theorem counters_never_decrease_witness:
  "SameLevelInfections (stats start0) + NextLevelInfections (stats start0) \<le> Attempts (stats start0)
   \<and> stats (run_console rngLow start0 [ChooseStarter ''A'', ChooseTarget ''C''])
       = stats0\<lparr>Attempts := 1, SameLevelInfections := 1\<rparr>
   \<and> stats (run_console rngLow start0 ([ChooseStarter ''A'', ChooseTarget ''C''] @ [ChooseTarget ''B'']))
       = stats0\<lparr>Attempts := 2, SameLevelInfections := 1, NextLevelInfections := 1\<rparr>
   \<and> stats (run_gui rngHigh start0 ([(0, ChooseStarter ''A''), (1, ChooseTarget ''Decoy'')] @ [(2, ChooseTarget ''B'')]))
       = stats0\<lparr>Attempts := 2\<rparr>"
  using counters_never_decrease [where s = start0 and rng = rngLow
          and cmds = "[ChooseStarter ''A'', ChooseTarget ''C'']" and later = "[ChooseTarget ''B'']"]
        counters_never_decrease [where s = start0 and rng = rngHigh
          and clicks = "[(0, ChooseStarter ''A''), (1, ChooseTarget ''Decoy'')]"
          and later' = "[(2, ChooseTarget ''B'')]"]
  by (simp add: run_console_def run_gui_def step_console_def step_gui_def start0_def roster0_def
        stats0_def host_def lookup_def markInfected_def loadMaxLevel_def askStarterAnimal_def
        chooseTarget_console_def getValidTargets_console_def attemptInfection_console_def
        enterDay_console_def chooseButton_gui_def infectButton_gui_def hasCard_gui_def
        rngLow_def rngHigh_def Let_def)

lemma askStarterAnimal_Some:
  "askStarterAnimal roster c = Some start \<Longrightarrow>
     start = c \<and> (\<exists>b. lookup roster c = Some b \<and> \<not> RedHerring b)"
  by (auto simp add: askStarterAnimal_def Let_def split: if_splits option.splits)

lemma chooseTarget_console_Target:
  "chooseTarget_console player roster cmd = Target t \<Longrightarrow>
     \<exists>tn. cmd = ChooseTarget tn \<and> lookup roster tn = Some t \<and> \<not> RedHerring t"
  by (auto simp add: chooseTarget_console_def Let_def split: if_splits option.splits command.splits)

lemma attemptInfection_console_roster:
  "attemptInfection_console apex r player t v roster st = (roster', st', newPlayer, won) \<Longrightarrow>
     (roster' = roster \<or> roster' = markInfected (Name t) roster)
     \<and> (newPlayer = Name t \<or> newPlayer = Name player)"
  by (auto simp add: attemptInfection_console_def Let_def split: if_splits)

lemma herring_kept:
  assumes "lookup roster n = Some a" and "RedHerring a"
    and "lookup roster m = Some b" and "\<not> RedHerring b"
  shows "m \<noteq> n \<and> Name b \<noteq> n \<and> lookup (markInfected (Name b) roster) n = Some a"
proof -
  from assms have "m \<noteq> n" by auto
  moreover from assms(3) have "Name b = m" by (simp add: lookup_Some)
  ultimately show ?thesis
    using assms(1) by (simp add: lookup_markInfected_other)
qed

lemma step_console_herring:
  assumes "lookup (animals s) n = Some a" and "RedHerring a"
    and "phase s = SelectingStarter \<or> playerName s \<noteq> n"
  shows "lookup (animals (step_console rng s cmd)) n = Some a
         \<and> (phase (step_console rng s cmd) = SelectingStarter \<or> playerName (step_console rng s cmd) \<noteq> n)"
proof (cases "phase s")
  case SelectingStarter
  show ?thesis
  proof (cases "\<exists>c start. cmd = ChooseStarter c \<and> askStarterAnimal (animals s) c = Some start")
    case True
    then obtain c start where c: "cmd = ChooseStarter c" "askStarterAnimal (animals s) c = Some start"
      by blast
    from askStarterAnimal_Some [OF c(2)] obtain b where
      b: "start = c" "lookup (animals s) c = Some b" "\<not> RedHerring b" by blast
    from herring_kept [OF assms(1,2) b(2,3)] lookup_Some [OF b(2)]
    show ?thesis
      using SelectingStarter c b(1) by (simp add: step_console_def enterDay_console_phase)
  next
    case False
    then have "step_console rng s cmd = s"
      using SelectingStarter by (auto simp add: step_console_def split: command.splits option.splits)
    then show ?thesis using assms SelectingStarter by simp
  qed
next
  case Playing
  with assms(3) have pn: "playerName s \<noteq> n" by simp
  show ?thesis
  proof (cases "lookup (animals s) (playerName s)")
    case None
    then show ?thesis using Playing assms(1) pn by (simp add: step_console_def)
  next
    case (Some player)
    then have np: "Name player = playerName s" by (simp add: lookup_Some)
    show ?thesis
    proof (cases "chooseTarget_console player (animals s) cmd")
      case Reprompt
      then show ?thesis using Playing Some assms(1) pn by (simp add: step_console_def)
    next
      case NoTarget
      then show ?thesis using Playing Some assms(1) pn by (simp add: step_console_def)
    next
      case (Target t)
      from chooseTarget_console_Target [OF Target] obtain tn where
        t: "lookup (animals s) tn = Some t" "\<not> RedHerring t" by blast
      note k = herring_kept [OF assms(1,2) t]
      obtain roster' st' newPlayer won where
        res: "attemptInfection_console (maxLevel s) (rng (draws s)) player t (virus s) (animals s) (stats s)
                = (roster', st', newPlayer, won)"
        by (metis prod_cases4)
      from attemptInfection_console_roster [OF res] k assms(1) pn np
      have "lookup roster' n = Some a" "newPlayer \<noteq> n" by auto
      then show ?thesis
        using Playing Some Target res by (simp add: step_console_def Let_def)
    qed
  qed
qed (use assms in \<open>simp_all add: step_console_def\<close>)

lemma step_gui_herring:
  assumes "lookup (animals s) n = Some a" and "RedHerring a"
    and "phase s = SelectingStarter \<or> playerName s \<noteq> n"
  shows "lookup (animals (step_gui rng s click)) n = Some a
         \<and> (phase (step_gui rng s click) = SelectingStarter \<or> playerName (step_gui rng s click) \<noteq> n)"
proof -
  have choose: "lookup (animals (chooseButton_gui now b s)) n = Some a
      \<and> (phase (chooseButton_gui now b s) = SelectingStarter \<or> playerName (chooseButton_gui now b s) \<noteq> n)"
    if "lookup (animals s) m = Some b" "phase s = SelectingStarter" for m b now
  proof (cases "RedHerring b")
    case True
    then show ?thesis using assms that by (simp add: chooseButton_gui_def)
  next
    case False
    from herring_kept [OF assms(1,2) that(1) False]
    show ?thesis using False by (simp add: chooseButton_gui_def)
  qed
  have infect: "lookup (animals (infectButton_gui rng player t s)) n = Some a
      \<and> (phase (infectButton_gui rng player t s) = SelectingStarter
           \<or> playerName (infectButton_gui rng player t s) \<noteq> n)"
    if "lookup (animals s) m = Some t" "playerName s \<noteq> n" for m t player
  proof (cases "RedHerring t")
    case True
    then show ?thesis using assms(1) that(2) by (simp add: infectButton_gui_def Let_def)
  next
    case False
    from herring_kept [OF assms(1,2) that(1) False]
    show ?thesis using False assms(1) that(2) by (simp add: infectButton_gui_def Let_def)
  qed
  show ?thesis
  proof (cases "phase s")
    case SelectingStarter
    show ?thesis
    proof (cases "\<exists>m b. snd click = ChooseStarter m \<and> lookup (animals s) m = Some b \<and> Level b = 1")
      case True
      then obtain m b where "snd click = ChooseStarter m" "lookup (animals s) m = Some b" "Level b = 1"
        by blast
      then show ?thesis
        using SelectingStarter choose [of m b "fst click"] by (simp add: step_gui_def)
    next
      case False
      then have "step_gui rng s click = s"
        using SelectingStarter
        by (auto simp add: step_gui_def split: command.splits option.splits)
      then show ?thesis using assms by simp
    qed
  next
    case Playing
    with assms(3) have pn: "playerName s \<noteq> n" by simp
    show ?thesis
    proof (cases "\<exists>player m t. lookup (animals s) (playerName s) = Some player
                    \<and> snd click = ChooseTarget m \<and> lookup (animals s) m = Some t \<and> hasCard_gui player t")
      case True
      then obtain player m t where "lookup (animals s) (playerName s) = Some player"
        "snd click = ChooseTarget m" "lookup (animals s) m = Some t" "hasCard_gui player t"
        by blast
      then show ?thesis
        using Playing infect [of m t player, OF _ pn] by (simp add: step_gui_def)
    next
      case False
      then have "step_gui rng s click = s \<or> step_gui rng s click = s\<lparr>phase := Crashed\<rparr>"
        using Playing
        by (auto simp add: step_gui_def split: command.splits option.splits)
      then show ?thesis using assms(1) pn by auto
    qed
  qed (use assms in \<open>simp_all add: step_gui_def\<close>)
qed

lemma run_console_herring:
  assumes "lookup (animals s) n = Some a" and "RedHerring a"
    and "phase s = SelectingStarter \<or> playerName s \<noteq> n"
  shows "lookup (animals (run_console rng s cmds)) n = Some a
         \<and> (phase (run_console rng s cmds) = SelectingStarter \<or> playerName (run_console rng s cmds) \<noteq> n)"
  using assms
proof (induction cmds arbitrary: s)
  case Nil
  then show ?case by (simp add: run_console_def)
next
  case (Cons c cs)
  have "run_console rng s (c # cs) = run_console rng (step_console rng s c) cs"
    by (simp add: run_console_def)
  moreover from step_console_herring [OF Cons.prems, of rng c]
  have "lookup (animals (step_console rng s c)) n = Some a"
    and "phase (step_console rng s c) = SelectingStarter \<or> playerName (step_console rng s c) \<noteq> n"
    by simp_all
  from Cons.IH [OF this(1) Cons.prems(2) this(2)]
  have "lookup (animals (run_console rng (step_console rng s c) cs)) n = Some a
         \<and> (phase (run_console rng (step_console rng s c) cs) = SelectingStarter
              \<or> playerName (run_console rng (step_console rng s c) cs) \<noteq> n)" .
  ultimately show ?case by simp
qed

lemma run_gui_herring:
  assumes "lookup (animals s) n = Some a" and "RedHerring a"
    and "phase s = SelectingStarter \<or> playerName s \<noteq> n"
  shows "lookup (animals (run_gui rng s clicks)) n = Some a
         \<and> (phase (run_gui rng s clicks) = SelectingStarter \<or> playerName (run_gui rng s clicks) \<noteq> n)"
  using assms
proof (induction clicks arbitrary: s)
  case Nil
  then show ?case by (simp add: run_gui_def)
next
  case (Cons c cs)
  have "run_gui rng s (c # cs) = run_gui rng (step_gui rng s c) cs"
    by (simp add: run_gui_def)
  moreover from step_gui_herring [OF Cons.prems, of rng c]
  have "lookup (animals (step_gui rng s c)) n = Some a"
    and "phase (step_gui rng s c) = SelectingStarter \<or> playerName (step_gui rng s c) \<noteq> n"
    by simp_all
  from Cons.IH [OF this(1) Cons.prems(2) this(2)]
  have "lookup (animals (run_gui rng (step_gui rng s c) cs)) n = Some a
         \<and> (phase (run_gui rng (step_gui rng s c) cs) = SelectingStarter
              \<or> playerName (run_gui rng (step_gui rng s c) cs) \<noteq> n)" .
  ultimately show ?case by simp
qed

text \<open>
  Claim C4. A red herring of the roster that is not infected when the starter is to be
  chosen is not infected after any sequence of commands, in the console program and in
  the graphical program with the animation; it is never the player host; and choosing it
  as the starter is refused with the state unchanged.
\<close>

theorem red_herring_never_infected:
  fixes rng :: "nat \<Rightarrow> 'f::{times,ord}"
  assumes "lookup (animals s) n = Some a" and "RedHerring a" and "\<not> Infected a"
    and "phase s = SelectingStarter"
  shows "map_option Infected (lookup (animals (run_console rng s cmds)) n) = Some False
         \<and> map_option RedHerring (lookup (animals (run_console rng s cmds)) n) = Some True
         \<and> (phase (run_console rng s cmds) = SelectingStarter \<or> playerName (run_console rng s cmds) \<noteq> n)
         \<and> map_option Infected (lookup (animals (run_gui rng s clicks)) n) = Some False
         \<and> map_option RedHerring (lookup (animals (run_gui rng s clicks)) n) = Some True
         \<and> (phase (run_gui rng s clicks) = SelectingStarter \<or> playerName (run_gui rng s clicks) \<noteq> n)
         \<and> step_console rng s (ChooseStarter n) = s
         \<and> step_gui rng s (now, ChooseStarter n) = s"
proof -
  have start: "phase s = SelectingStarter \<or> playerName s \<noteq> n"
    using assms(4) by simp
  have "askStarterAnimal (animals s) n = None"
    using assms(1,2) by (simp add: askStarterAnimal_def Let_def)
  then have console: "step_console rng s (ChooseStarter n) = s"
    using assms(4) by (simp add: step_console_def)
  have gui: "step_gui rng s (now, ChooseStarter n) = s"
    using assms(1,2,4) by (simp add: step_gui_def chooseButton_gui_def)
  from run_console_herring [OF assms(1,2) start, of rng cmds]
    run_gui_herring [OF assms(1,2) start, of rng clicks] assms(2,3) console gui
  show ?thesis by simp
qed

theorem red_herring_never_infected_witness:
  "lookup (animals start0) ''Decoy'' = Some (host ''Decoy'' 1 1 True False)
   \<and> RedHerring (host ''Decoy'' 1 1 True False) \<and> \<not> Infected (host ''Decoy'' 1 1 True False)
   \<and> phase start0 = SelectingStarter
   \<and> step_console rngLow start0 (ChooseStarter ''Decoy'') = start0
   \<and> step_gui rngLow start0 (0, ChooseStarter ''Decoy'') = start0
   \<and> lookup (animals (run_gui rngLow start0
          [(0, ChooseStarter ''Decoy''), (1, ChooseStarter ''A''), (2, ChooseTarget ''Decoy''),
           (3, ChooseTarget ''C'')])) ''Decoy'' = Some (host ''Decoy'' 1 1 True False)
   \<and> playerName (run_gui rngLow start0
          [(0, ChooseStarter ''Decoy''), (1, ChooseStarter ''A''), (2, ChooseTarget ''Decoy''),
           (3, ChooseTarget ''C'')]) = ''C''"
  using red_herring_never_infected [where s = start0 and n = "''Decoy''"
          and a = "host ''Decoy'' 1 1 True False" and rng = rngLow and now = 0
          and cmds = "[ChooseStarter ''Decoy'', ChooseStarter ''A'', ChooseTarget ''Decoy'']"
          and clicks = "[(0, ChooseStarter ''Decoy''), (1, ChooseStarter ''A''), (2, ChooseTarget ''Decoy''),
             (3, ChooseTarget ''C'')]"]
  by (simp add: run_gui_def step_gui_def start0_def roster0_def
        stats0_def host_def lookup_def markInfected_def loadMaxLevel_def
        chooseButton_gui_def infectButton_gui_def hasCard_gui_def rngLow_def Let_def)

lemma run_console_ended:
  "phase s = Won \<Longrightarrow> run_console rng s cmds = s"
  unfolding run_console_def by (induction cmds) (simp_all add: step_console_def)

lemma run_gui_ended:
  "phase s = Won \<Longrightarrow> run_gui rng s clicks = s"
  unfolding run_gui_def by (induction clicks) (simp_all add: step_gui_def)

text \<open>
  Claim C8. While playing, a successful infection of a host one level above the player
  whose level is the apex level puts the program in its final phase \<open>Won\<close> with that host
  as the player, in the console program and in the graphical program with the animation;
  from then on no command changes the state.
\<close>

theorem apex_infection_wins:
  fixes rng :: "nat \<Rightarrow> 'f::{times,ord}"
  assumes "phase s = Playing"
    and "lookup (animals s) (playerName s) = Some player"
    and "lookup (animals s) n = Some t"
    and "\<not> Infected t" and "\<not> RedHerring t"
    and "Level t = Level player + 1"
    and "Level t = maxLevel s"
    and "rng (draws s) < InfectionRate t * Strength (virus s)"
  shows "phase (step_console rng s (ChooseTarget n)) = Won
         \<and> playerName (step_console rng s (ChooseTarget n)) = n
         \<and> run_console rng (step_console rng s (ChooseTarget n)) cmds = step_console rng s (ChooseTarget n)
         \<and> phase (step_gui rng s (now, ChooseTarget n)) = Won
         \<and> playerName (step_gui rng s (now, ChooseTarget n)) = n
         \<and> run_gui rng (step_gui rng s (now, ChooseTarget n)) clicks = step_gui rng s (now, ChooseTarget n)
         \<and> (\<forall>w cmd. phase w = Won \<longrightarrow> step_console rng w cmd = w \<and> step_gui rng w (now, cmd) = w)"
proof -
  from lookup_Some [OF assms(3)] have t: "Name t = n" "t \<in> set (animals s)" by simp_all
  with assms(4,6) have "n \<in> set (getValidTargets_console player (animals s))"
    by (auto simp add: getValidTargets_console_def)
  then have "chooseTarget_console player (animals s) (ChooseTarget n) = Target t"
    using assms(3,5) by (auto simp add: chooseTarget_console_def Let_def)
  then have c: "phase (step_console rng s (ChooseTarget n)) = Won
      \<and> playerName (step_console rng s (ChooseTarget n)) = n"
    using assms t(1) by (simp add: step_console_def attemptInfection_console_def Let_def)
  have "hasCard_gui player t"
    using assms(4,6) by (simp add: hasCard_gui_def)
  then have g: "phase (step_gui rng s (now, ChooseTarget n)) = Won
      \<and> playerName (step_gui rng s (now, ChooseTarget n)) = n"
    using assms t(1) by (simp add: step_gui_def infectButton_gui_def Let_def)
  have "\<forall>w cmd. phase w = Won \<longrightarrow> step_console rng w cmd = w \<and> step_gui rng w (now, cmd) = w"
    by (simp add: step_console_def step_gui_def)
  with c g show ?thesis
    by (simp add: run_console_ended run_gui_ended)
qed

theorem apex_infection_wins_witness:
  "phase playing0 = Playing
   \<and> lookup (animals playing0) (playerName playing0) = Some (host ''A'' 1 1 False True)
   \<and> lookup (animals playing0) ''B'' = Some (host ''B'' 2 (1/2) False False)
   \<and> Level (host ''B'' 2 (1/2) False False) = maxLevel playing0
   \<and> rngLow (draws playing0) < InfectionRate (host ''B'' 2 (1/2) False False) * Strength (virus playing0)
   \<and> phase (step_console rngLow playing0 (ChooseTarget ''B'')) = Won
   \<and> phase (step_gui rngLow playing0 (0, ChooseTarget ''B'')) = Won
   \<and> run_console rngLow (step_console rngLow playing0 (ChooseTarget ''B'')) [SkipTurn, ChooseTarget ''C'']
       = step_console rngLow playing0 (ChooseTarget ''B'')
   \<and> run_gui rngLow (step_gui rngLow playing0 (0, ChooseTarget ''B'')) [(1, SkipTurn), (2, ChooseTarget ''C'')]
       = step_gui rngLow playing0 (0, ChooseTarget ''B'')
   \<and> stats (step_gui rngLow playing0 (0, ChooseTarget ''B'')) = stats0\<lparr>Attempts := 1, NextLevelInfections := 1\<rparr>"
  using apex_infection_wins [where s = playing0 and player = "host ''A'' 1 1 False True" and n = "''B''"
          and t = "host ''B'' 2 (1/2) False False" and rng = rngLow and now = 0
          and cmds = "[SkipTurn, ChooseTarget ''C'']"
          and clicks = "[(1, SkipTurn), (2, ChooseTarget ''C'')]"]
  by (simp add: step_gui_def playing0_def start0_def roster0_def
        stats0_def host_def lookup_def markInfected_def loadMaxLevel_def
        infectButton_gui_def hasCard_gui_def rngLow_def Let_def)

end
